theory Spec2Isabelle
  imports Complex_Main
begin

section \<open>Python values, errors and truthiness\<close>

text \<open>
  The embedding follows \<^verbatim>\<open>led/effects/base.py\<close> and \<^verbatim>\<open>led/renderer.py\<close>.
  Python floats are modelled by the reals, every reading of \<^verbatim>\<open>time.time()\<close> is an
  explicit argument, and every exception of the source is a value \<open>Inl e\<close>.
\<close>

datatype error =
    AttributeError
  | IndexError
  | KeyError
  | TypeError
  | ValueError
  | ZeroDivisionError
  | NotImplementedError
  | Exception

text \<open>\<^verbatim>\<open>if x:\<close> on a float that may be \<^verbatim>\<open>None\<close>: false for \<^verbatim>\<open>None\<close> and for \<^verbatim>\<open>0.0\<close>.\<close>

definition truthy :: "real option \<Rightarrow> bool" where
  "truthy x = (case x of None \<Rightarrow> False | Some v \<Rightarrow> v \<noteq> 0)"

text \<open>\<^verbatim>\<open>xs[i]\<close> for a non-negative index: raises \<^verbatim>\<open>IndexError\<close> out of range.\<close>

definition index :: "'a list \<Rightarrow> nat \<Rightarrow> error + 'a" where
  "index xs i = (if i < length xs then Inr (xs ! i) else Inl IndexError)"

section \<open>EffectParameters and the headset reading\<close>

text \<open>
  \<^verbatim>\<open>EEGInfo\<close> objects come from the headset thread. An object is its identity
  \<open>ident\<close>, its \<open>on\<close> flag and its named numeric attributes; \<^verbatim>\<open>!=\<close> between two
  such objects is Python's default, a comparison of identities.
\<close>

record eeg_info =
  ident :: nat
  on :: bool
  attrs :: "(string \<times> real) list"

record EffectParameters =
  time :: real
  targetFrameRate :: real
  eeg :: "eeg_info option"

definition getattr :: "eeg_info \<Rightarrow> string \<Rightarrow> error + real" where
  "getattr e name = (case map_of (attrs e) name of None \<Rightarrow> Inl AttributeError | Some v \<Rightarrow> Inr v)"

definition eeg_ne :: "eeg_info option \<Rightarrow> eeg_info option \<Rightarrow> bool" where
  "eeg_ne a b = (map_option ident a \<noteq> map_option ident b)"

section \<open>HeadsetResponsiveEffectLayer\<close>

record HeadsetResponsiveEffectLayer =
  respond_to :: string
  smooth_response_over_n_secs :: real
  measurements :: "real list"
  timestamps :: "real list"
  last_eeg :: "eeg_info option"
  last_response_level :: "real option"
  fading_to :: "real option"

definition init_layer :: "string \<Rightarrow> real \<Rightarrow> HeadsetResponsiveEffectLayer" where
  "init_layer r n =
     \<lparr>respond_to = r, smooth_response_over_n_secs = n, measurements = [], timestamps = [],
      last_eeg = None, last_response_level = None, fading_to = None\<rparr>"

definition start_fade :: "real \<Rightarrow> HeadsetResponsiveEffectLayer \<Rightarrow> HeadsetResponsiveEffectLayer" where
  "start_fade new_level self =
     (if \<not> truthy (last_response_level self)
      then self\<lparr>last_response_level := Some new_level\<rparr>
      else self\<lparr>fading_to := Some new_level\<rparr>)"

definition end_fade :: "HeadsetResponsiveEffectLayer \<Rightarrow> HeadsetResponsiveEffectLayer" where
  "end_fade self = self\<lparr>last_response_level := fading_to self, fading_to := None\<rparr>"

text \<open>
  The \<^verbatim>\<open>while idx < N\<close> loop of \<^verbatim>\<open>render\<close>: it cuts both lists after the first
  entry older than the window and stops there.
\<close>

function trim_loop :: "nat \<Rightarrow> nat \<Rightarrow> HeadsetResponsiveEffectLayer \<Rightarrow> error + HeadsetResponsiveEffectLayer" where
  "trim_loop idx N self =
     (if idx < N then
        (case index (timestamps self) 0 of
           Inl e \<Rightarrow> Inl e
         | Inr t0 \<Rightarrow>
            (case index (timestamps self) idx of
               Inl e \<Rightarrow> Inl e
             | Inr ti \<Rightarrow>
                 if t0 - ti > smooth_response_over_n_secs self
                 then Inr (self\<lparr>measurements := take (idx + 1) (measurements self),
                                 timestamps := take (idx + 1) (timestamps self)\<rparr>)
                 else trim_loop (idx + 1) N self))
      else Inr self)"
  by pat_completeness auto
termination
  by (relation "measure (\<lambda>(idx, N, self). N - idx)") auto

text \<open>
  The branch of \<^verbatim>\<open>render\<close> taken for a new, distinct reading that is on, in two
  parts: \<open>record_reading\<close> is everything after the first two lines of the branch
  (prepend, trim, average, emit), and \<open>new_reading\<close> runs
  \<^verbatim>\<open>if self.fading_to: self.end_fade()\<close> before it.
\<close>

definition record_reading ::
  "real \<Rightarrow> eeg_info \<Rightarrow> HeadsetResponsiveEffectLayer \<Rightarrow> error + (HeadsetResponsiveEffectLayer \<times> real option)" where
  "record_reading now e s1 =
     (case getattr e (respond_to s1) of
        Inl err \<Rightarrow> Inl err
      | Inr v \<Rightarrow>
         (let s2 = s1\<lparr>measurements := v # measurements s1,
                      timestamps := now # timestamps s1,
                      last_eeg := Some e\<rparr>
          in case trim_loop 0 (length (measurements s2)) s2 of
               Inl err \<Rightarrow> Inl err
             | Inr s3 \<Rightarrow>
                (let s4 = (if length (measurements s3) > 1
                           then start_fade (sum_list (measurements s3) * 1.0
                                              / real (length (measurements s3))) s3
                           else s3)
                 in Inr (s4, last_response_level s4))))"

definition new_reading ::
  "real \<Rightarrow> eeg_info \<Rightarrow> HeadsetResponsiveEffectLayer \<Rightarrow> error + (HeadsetResponsiveEffectLayer \<times> real option)" where
  "new_reading now e self =
     record_reading now e (if truthy (fading_to self) then end_fade self else self)"

text \<open>The \<^verbatim>\<open>elif self.fading_to:\<close> branch: a one-second fade towards the target.\<close>

definition fade_step ::
  "real \<Rightarrow> HeadsetResponsiveEffectLayer \<Rightarrow> error + (HeadsetResponsiveEffectLayer \<times> real option)" where
  "fade_step now self =
     (case index (timestamps self) 0 of
        Inl err \<Rightarrow> Inl err
      | Inr t0 \<Rightarrow>
         (let fade_progress = now - t0 in
          if fade_progress \<ge> 1
          then (let s1 = end_fade self in Inr (s1, last_response_level s1))
          else (case (fading_to self, last_response_level self) of
                  (Some target, Some level) \<Rightarrow>
                     Inr (self, Some (fade_progress * target + (1 - fade_progress) * level))
                | _ \<Rightarrow> Inl TypeError)))"

text \<open>
  \<^verbatim>\<open>HeadsetResponsiveEffectLayer.render\<close>. The result is the layer after the call and
  the \<^verbatim>\<open>response_level\<close> handed to \<^verbatim>\<open>render_responsive\<close>, which starts as \<^verbatim>\<open>None\<close>.
\<close>

definition render_level ::
  "real \<Rightarrow> EffectParameters \<Rightarrow> HeadsetResponsiveEffectLayer \<Rightarrow> error + (HeadsetResponsiveEffectLayer \<times> real option)" where
  "render_level now params self =
     (case eeg params of
        Some e \<Rightarrow>
          if eeg_ne (eeg params) (last_eeg self) \<and> on e then new_reading now e self
          else if truthy (fading_to self) then fade_step now self
          else Inr (self, None)
      | None \<Rightarrow>
          if truthy (fading_to self) then fade_step now self
          else Inr (self, None))"

text \<open>An entry of the history is within the window when its age is not above it.\<close>

definition within_window :: "real \<Rightarrow> real \<Rightarrow> real \<Rightarrow> bool" where
  "within_window w newest t = (\<not> (newest - t > w))"

definition is_new_reading :: "EffectParameters \<Rightarrow> HeadsetResponsiveEffectLayer \<Rightarrow> bool" where
  "is_new_reading params self =
     (case eeg params of None \<Rightarrow> False | Some e \<Rightarrow> eeg_ne (eeg params) (last_eeg self) \<and> on e)"

text \<open>
  The number of entries the trimming loop keeps when the newest timestamp is \<open>now\<close>:
  the entries before the first one older than the window, and that one.
\<close>

definition cut_point :: "real \<Rightarrow> real \<Rightarrow> real list \<Rightarrow> nat" where
  "cut_point w now ts = Suc (length (takeWhile (within_window w now) (now # ts)))"

section \<open>Frames and effect layers\<close>

text \<open>
  A frame is the array of LEDs, one row of colour components per LED. The three numpy
  operations of the renderer work element by element:
  \<^verbatim>\<open>numpy.multiply(frame, c, frame)\<close>, \<^verbatim>\<open>numpy.add(frame, frame2, frame)\<close> and
  \<^verbatim>\<open>numpy.zeros(frame.shape)\<close>.
\<close>

type_synonym frame = "real list list"

definition frame_scale :: "real \<Rightarrow> frame \<Rightarrow> frame" where
  "frame_scale c f = map (map (\<lambda>x. x * c)) f"

definition frame_add :: "frame \<Rightarrow> frame \<Rightarrow> frame" where
  "frame_add f g = map2 (map2 (+)) f g"

definition zeros_like :: "frame \<Rightarrow> frame" where
  "zeros_like f = map (map (\<lambda>x. 0)) f"

definition ones_like :: "frame \<Rightarrow> frame" where
  "ones_like f = map (map (\<lambda>x. 1)) f"

text \<open>
  A call of a layer's routine, with the model and the parameters of the frame being
  rendered: it reads and changes the state \<open>'w\<close> of the layer objects (and whatever else
  they touch) and the frame, or raises.
\<close>

type_synonym 'w layer_call = "'w \<Rightarrow> frame \<Rightarrow> error + ('w \<times> frame)"

text \<open>
  A layer object, as the renderer sees it: its \<^verbatim>\<open>render\<close>, and the two
  attributes the renderer reads, \<^verbatim>\<open>safely_render\<close> and \<^verbatim>\<open>transitionFadeTime\<close>, each
  \<open>None\<close> when the object's class defines none.
\<close>

datatype 'w layer =
  Layer (render: "'w layer_call") (safely_render: "'w layer_call option") (transitionFadeTime: "real option")

text \<open>
  \<^verbatim>\<open>class EffectLayer(object)\<close> defines \<^verbatim>\<open>render\<close>, which raises, and nothing else; a
  subclass such as \<^verbatim>\<open>WhiteOutLayer\<close> overrides \<^verbatim>\<open>render\<close> only.
\<close>

definition EffectLayer :: "'w layer" where
  "EffectLayer = Layer (\<lambda>w frame. Inl NotImplementedError) None None"

definition WhiteOutLayer :: "'w layer" where
  "WhiteOutLayer = Layer (\<lambda>w frame. Inr (w, frame_add frame (ones_like frame))) None None"

text \<open>The call \<^verbatim>\<open>layer.safely_render(model, params, frame)\<close>: attribute lookup, then the call.\<close>

definition call_safely_render :: "'w layer \<Rightarrow> 'w layer_call" where
  "call_safely_render l w frame =
     (case safely_render l of None \<Rightarrow> Inl AttributeError | Some m \<Rightarrow> m w frame)"

text \<open>\<^verbatim>\<open>for layer in layers: layer.safely_render(model, params, frame)\<close>\<close>

fun render_layers :: "'w layer list \<Rightarrow> 'w layer_call" where
  "render_layers [] w frame = Inr (w, frame)"
| "render_layers (l # ls) w frame =
     (case call_safely_render l w frame of
        Inl e \<Rightarrow> Inl e
      | Inr (w', frame') \<Rightarrow> render_layers ls w' frame')"

text \<open>\<^verbatim>\<open>if layers:\<close> on a layer list that may be \<^verbatim>\<open>None\<close>.\<close>

definition layers_truthy :: "'w layer list option \<Rightarrow> bool" where
  "layers_truthy ls = (case ls of None \<Rightarrow> False | Some xs \<Rightarrow> xs \<noteq> [])"

text \<open>\<^verbatim>\<open>if layers: for layer in layers: layer.safely_render(model, params, frame)\<close>\<close>

definition render_scene :: "'w layer list option \<Rightarrow> 'w layer_call" where
  "render_scene ls w frame =
     (case ls of None \<Rightarrow> Inr (w, frame) | Some xs \<Rightarrow> render_layers xs w frame)"

section \<open>Fades\<close>

text \<open>
  A \<^verbatim>\<open>Fade\<close> object: the fields of \<^verbatim>\<open>Fade.__init__\<close> and those of the subclass. The
  flag \<^verbatim>\<open>done\<close> is \<open>fade_done\<close> here.
\<close>

datatype 'w fade =
    LinearFade (fade_done: bool) (startLayers: "'w layer list option")
      (endLayers: "'w layer list option") (duration: real) (start: "real option")
  | TwoStepFade (fade_done: bool) (startLayers: "'w layer list option")
      (endLayers: "'w layer list option") (fade1: "'w fade") (fade2: "'w fade")

definition LinearFade_init ::
  "'w layer list option \<Rightarrow> 'w layer list option \<Rightarrow> real \<Rightarrow> 'w fade" where
  "LinearFade_init sl el d = LinearFade False sl el d None"

definition TwoStepFade_init ::
  "'w fade \<Rightarrow> 'w fade \<Rightarrow> 'w layer list option \<Rightarrow> 'w layer list option \<Rightarrow> 'w fade" where
  "TwoStepFade_init f1 f2 sl el = TwoStepFade False sl el f1 f2"

definition FastFade :: "'w layer list option \<Rightarrow> 'w layer list option \<Rightarrow> real \<Rightarrow> 'w fade" where
  "FastFade sl el d =
     TwoStepFade_init (LinearFade_init sl None (d / 2)) (LinearFade_init None el (d / 2)) sl el"

definition TwoStepLinearFade ::
  "'w layer list option \<Rightarrow> 'w layer list option \<Rightarrow> 'w layer list option \<Rightarrow> real \<Rightarrow> real \<Rightarrow> 'w fade" where
  "TwoStepLinearFade currLayers nextLayers finalLayers duration_1 duration_2 =
     TwoStepFade_init (LinearFade_init currLayers nextLayers duration_1)
                      (LinearFade_init nextLayers finalLayers duration_2)
                      currLayers finalLayers"

text \<open>
  \<^verbatim>\<open>LinearFade.render\<close> and \<^verbatim>\<open>TwoStepFade.render\<close>. A call reads the clock at most
  twice: \<open>t0\<close> is the reading stored as \<^verbatim>\<open>self.start\<close> when that is still unset (or
  \<open>0.0\<close>: the test is \<^verbatim>\<open>not self.start\<close>), \<open>t1\<close> the reading taken after the end layers
  are rendered. The division by a duration of \<open>0.0\<close> raises.
\<close>

fun fade_render :: "real \<Rightarrow> real \<Rightarrow> 'w fade \<Rightarrow> 'w \<Rightarrow> frame \<Rightarrow> error + ('w fade \<times> 'w \<times> frame)" where
  "fade_render t0 t1 (LinearFade dn sl el d st) w frame =
     (let s = (if \<not> truthy st then t0 else the st) in
      case render_scene el w frame of
        Inl e \<Rightarrow> Inl e
      | Inr (w1, frame1) \<Rightarrow>
          if d = 0 then Inl ZeroDivisionError
          else
            (let percentDone = (t1 - s) / d in
             if percentDone \<ge> 1 then Inr (LinearFade True sl el d (Some s), w1, frame1)
             else
               (let frame2 = frame_scale percentDone frame1 in
                if layers_truthy sl then
                  (case render_scene sl w1 (zeros_like frame2) of
                     Inl e \<Rightarrow> Inl e
                   | Inr (w2, tmp) \<Rightarrow>
                       Inr (LinearFade dn sl el d (Some s), w2,
                            frame_add frame2 (frame_scale (1 - percentDone) tmp)))
                else Inr (LinearFade dn sl el d (Some s), w1, frame2))))"
| "fade_render t0 t1 (TwoStepFade dn sl el f1 f2) w frame =
     (if \<not> fade_done f1 then
        (case fade_render t0 t1 f1 w frame of
           Inl e \<Rightarrow> Inl e
         | Inr (f1', w', frame') \<Rightarrow> Inr (TwoStepFade dn sl el f1' f2, w', frame'))
      else
        (case fade_render t0 t1 f2 w frame of
           Inl e \<Rightarrow> Inl e
         | Inr (f2', w', frame') \<Rightarrow> Inr (TwoStepFade (fade_done f2') sl el f1 f2', w', frame')))"

section \<open>Playlists and the renderer\<close>

text \<open>
  Modelled from the spec: the class \<^verbatim>\<open>Playlist\<close> (module \<^verbatim>\<open>playlist\<close>, imported by the
  renderer) is not among the sources. A playlist is an ordered sequence of scenes with
  a cursor and a shuffle flag; \<open>selection\<close> is the scene under the cursor; \<open>advance\<close>
  moves the cursor forward with wrap-around, or, when shuffling, to another scene chosen
  by the random draw \<open>pick\<close> (never the same scene when there is more than one).
\<close>

record 'w Playlist =
  scenes :: "'w layer list list"
  cursor :: nat
  shuffle :: bool

definition selection :: "'w Playlist \<Rightarrow> error + 'w layer list" where
  "selection pl = index (scenes pl) (cursor pl)"

definition advance :: "nat \<Rightarrow> 'w Playlist \<Rightarrow> 'w Playlist" where
  "advance pick pl =
     (let n = length (scenes pl) in
      if shuffle pl then
        (if n > 1 then pl\<lparr>cursor := (cursor pl + 1 + pick mod (n - 1)) mod n\<rparr> else pl)
      else pl\<lparr>cursor := (cursor pl + 1) mod n\<rparr>)"

text \<open>
  The \<^verbatim>\<open>Renderer\<close>. The dictionary of playlists is an association list with distinct
  names. \<open>gammaLayer\<close> is the lookup that \<^verbatim>\<open>GammaLayer.render\<close> applies to every
  component (\<^verbatim>\<open>numpy.interp\<close> over its table).
\<close>

record 'w Renderer =
  playlists :: "(string \<times> 'w Playlist) list"
  activePlaylist :: "string option"
  nextPlaylist :: "string option"
  useFastFades :: bool
  fade :: "'w fade option"
  gammaLayer :: "real \<Rightarrow> real"

text \<open>\<^verbatim>\<open>if name:\<close> on a playlist name that may be \<^verbatim>\<open>None\<close>: false for \<^verbatim>\<open>None\<close> and for \<^verbatim>\<open>''\<close>.\<close>

definition name_truthy :: "string option \<Rightarrow> bool" where
  "name_truthy k = (case k of None \<Rightarrow> False | Some n \<Rightarrow> n \<noteq> [])"

definition Renderer_init ::
  "(string \<times> 'w Playlist) list \<Rightarrow> string option \<Rightarrow> bool \<Rightarrow> (real \<Rightarrow> real) \<Rightarrow> error + 'w Renderer" where
  "Renderer_init pls active fast gamma =
     (if pls = [] then Inl Exception
      else if name_truthy active
        then Inr \<lparr>playlists = pls, activePlaylist = active, nextPlaylist = None,
                  useFastFades = fast, fade = None, gammaLayer = gamma\<rparr>
      else if length pls = 1
        then Inr \<lparr>playlists = pls, activePlaylist = Some (fst (hd pls)), nextPlaylist = None,
                  useFastFades = fast, fade = None, gammaLayer = gamma\<rparr>
      else Inl Exception)"

text \<open>\<^verbatim>\<open>_get\<close>, \<^verbatim>\<open>_active\<close> and \<^verbatim>\<open>_next\<close>: a missing key raises.\<close>

definition Renderer_get :: "'w Renderer \<Rightarrow> string option \<Rightarrow> error + 'w Playlist option" where
  "Renderer_get self playlistKey =
     (if name_truthy playlistKey then
        (case map_of (playlists self) (the playlistKey) of
           None \<Rightarrow> Inl KeyError
         | Some pl \<Rightarrow> Inr (Some pl))
      else Inr None)"

definition Renderer_active :: "'w Renderer \<Rightarrow> error + 'w Playlist option" where
  "Renderer_active self = Renderer_get self (activePlaylist self)"

definition Renderer_next :: "'w Renderer \<Rightarrow> error + 'w Playlist option" where
  "Renderer_next self = Renderer_get self (nextPlaylist self)"

definition apply_gamma :: "(real \<Rightarrow> real) \<Rightarrow> frame \<Rightarrow> frame" where
  "apply_gamma g frame = map (map g) frame"

text \<open>
  \<^verbatim>\<open>Renderer.render\<close>. Calling \<^verbatim>\<open>selection\<close> on the \<^verbatim>\<open>None\<close> that \<^verbatim>\<open>_get\<close> returns for
  a false key raises \<^verbatim>\<open>AttributeError\<close>.
\<close>

definition Renderer_render ::
  "real \<Rightarrow> real \<Rightarrow> 'w Renderer \<Rightarrow> 'w \<Rightarrow> frame \<Rightarrow> error + ('w Renderer \<times> 'w \<times> frame)" where
  "Renderer_render t0 t1 self w frame =
     (case fade self of
        Some fd \<Rightarrow>
          (case fade_render t0 t1 fd w frame of
             Inl e \<Rightarrow> Inl e
           | Inr (fd', w', frame') \<Rightarrow>
               (let self1 =
                  (if fade_done fd' then
                     (if name_truthy (nextPlaylist self)
                      then self\<lparr>activePlaylist := nextPlaylist self, nextPlaylist := None,
                                fade := None\<rparr>
                      else self\<lparr>fade := None\<rparr>)
                   else self\<lparr>fade := Some fd'\<rparr>)
                in Inr (self1, w', apply_gamma (gammaLayer self) frame')))
      | None \<Rightarrow>
          if name_truthy (activePlaylist self) then
            (case Renderer_active self of
               Inl e \<Rightarrow> Inl e
             | Inr None \<Rightarrow> Inl AttributeError
             | Inr (Some pl) \<Rightarrow>
                 (case selection pl of
                    Inl e \<Rightarrow> Inl e
                  | Inr layers \<Rightarrow>
                      (case render_layers layers w frame of
                         Inl e \<Rightarrow> Inl e
                       | Inr (w', frame') \<Rightarrow>
                           Inr (self, w', apply_gamma (gammaLayer self) frame'))))
          else Inr (self, w, apply_gamma (gammaLayer self) frame))"

text \<open>\<^verbatim>\<open>active.advance()\<close> on the playlist stored under a name.\<close>

definition advance_named :: "nat \<Rightarrow> string \<Rightarrow> (string \<times> 'w Playlist) list \<Rightarrow> (string \<times> 'w Playlist) list" where
  "advance_named pick name pls = map (\<lambda>(k, pl). if k = name then (k, advance pick pl) else (k, pl)) pls"

text \<open>\<^verbatim>\<open>Renderer.advanceCurrentPlaylist\<close>; \<open>pick\<close> is the draw of a shuffling playlist.\<close>

definition advanceCurrentPlaylist :: "nat \<Rightarrow> real \<Rightarrow> 'w Renderer \<Rightarrow> error + 'w Renderer" where
  "advanceCurrentPlaylist pick fadeTime self =
     (case Renderer_active self of
        Inl e \<Rightarrow> Inl e
      | Inr None \<Rightarrow> Inl Exception
      | Inr (Some active) \<Rightarrow>
          (case selection active of
             Inl e \<Rightarrow> Inl e
           | Inr sel \<Rightarrow>
               (case selection (advance pick active) of
                  Inl e \<Rightarrow> Inl e
                | Inr sel' \<Rightarrow>
                    Inr (self\<lparr>playlists := advance_named pick (the (activePlaylist self)) (playlists self),
                              fade := Some (LinearFade_init (Some sel) (Some sel') fadeTime)\<rparr>))))"

text \<open>
  \<^verbatim>\<open>_fadeTimeForTransition\<close>: the list comprehension reads the attribute of every layer
  in order, and \<^verbatim>\<open>max\<close> of an empty list raises.
\<close>

fun transition_times :: "'w layer list \<Rightarrow> error + real list" where
  "transition_times [] = Inr []"
| "transition_times (l # ls) =
     (case transitionFadeTime l of
        None \<Rightarrow> Inl AttributeError
      | Some t \<Rightarrow> (case transition_times ls of Inl e \<Rightarrow> Inl e | Inr ts \<Rightarrow> Inr (t # ts)))"

definition fadeTimeForTransition :: "'w Playlist \<Rightarrow> error + real" where
  "fadeTimeForTransition playlist =
     (case selection playlist of
        Inl e \<Rightarrow> Inl e
      | Inr layers \<Rightarrow>
          (case transition_times layers of
             Inl e \<Rightarrow> Inl e
           | Inr [] \<Rightarrow> Inl ValueError
           | Inr (t # ts) \<Rightarrow> Inr (fold max ts t)))"

text \<open>\<^verbatim>\<open>x.selection()\<close> on what \<^verbatim>\<open>_get\<close> returned.\<close>

definition selection_of :: "'w Playlist option \<Rightarrow> error + 'w layer list" where
  "selection_of x = (case x of None \<Rightarrow> Inl AttributeError | Some pl \<Rightarrow> selection pl)"

text \<open>
  \<^verbatim>\<open>Renderer.swapPlaylists\<close>; \<open>pick_m\<close> and \<open>pick_a\<close> are the draws of the intermediate
  and of the active playlist when they shuffle. \<open>install\<close> is the last statement,
  \<^verbatim>\<open>if advanceAfterFadeOut: active.advance()\<close>, after the fade is stored.
\<close>

definition install ::
  "nat \<Rightarrow> bool \<Rightarrow> 'w Playlist option \<Rightarrow> 'w fade \<Rightarrow> 'w Renderer \<Rightarrow> error + 'w Renderer" where
  "install pick_a advanceAfterFadeOut active fd self =
     (let self1 = self\<lparr>fade := Some fd\<rparr> in
      if advanceAfterFadeOut then
        (case active of
           None \<Rightarrow> Inl AttributeError
         | Some a \<Rightarrow>
             Inr (self1\<lparr>playlists :=
                    advance_named pick_a (the (activePlaylist self1)) (playlists self1)\<rparr>))
      else Inr self1)"

definition swapPlaylists ::
  "nat \<Rightarrow> nat \<Rightarrow> string option \<Rightarrow> string option \<Rightarrow> bool \<Rightarrow> real \<Rightarrow> 'w Renderer \<Rightarrow> error + 'w Renderer" where
  "swapPlaylists pick_m pick_a nxt intermediatePlaylist advanceAfterFadeOut fadeTime self =
     (case Renderer_active self of
        Inl e \<Rightarrow> Inl e
      | Inr active \<Rightarrow>
         (let self1 = self\<lparr>nextPlaylist := nxt\<rparr> in
          if useFastFades self1 then
            (case selection_of active of
               Inl e \<Rightarrow> Inl e
             | Inr cur \<Rightarrow>
                 (case Renderer_next self1 of
                    Inl e \<Rightarrow> Inl e
                  | Inr nx \<Rightarrow>
                      (case selection_of nx of
                         Inl e \<Rightarrow> Inl e
                       | Inr final \<Rightarrow>
                           install pick_a advanceAfterFadeOut active
                             (FastFade (Some cur) (Some final) fadeTime) self1)))
          else if name_truthy intermediatePlaylist then
            (case Renderer_get self1 intermediatePlaylist of
               Inl e \<Rightarrow> Inl e
             | Inr None \<Rightarrow> Inl AttributeError
             | Inr (Some middle) \<Rightarrow>
                 (case selection_of active of
                    Inl e \<Rightarrow> Inl e
                  | Inr cur \<Rightarrow>
                      (case selection middle of
                         Inl e \<Rightarrow> Inl e
                       | Inr mid \<Rightarrow>
                           (case Renderer_next self1 of
                              Inl e \<Rightarrow> Inl e
                            | Inr nx \<Rightarrow>
                                (case selection_of nx of
                                   Inl e \<Rightarrow> Inl e
                                 | Inr final \<Rightarrow>
                                     (case fadeTimeForTransition middle of
                                        Inl e \<Rightarrow> Inl e
                                      | Inr d2 \<Rightarrow>
                                          (let fd = TwoStepLinearFade (Some cur) (Some mid) (Some final) 0.25 d2;
                                               self2 = (if advanceAfterFadeOut
                                                        then self1\<lparr>playlists :=
                                                               advance_named pick_m (the intermediatePlaylist)
                                                                 (playlists self1)\<rparr>
                                                        else self1)
                                           in install pick_a advanceAfterFadeOut active fd self2)))))))
          else
            (case selection_of active of
               Inl e \<Rightarrow> Inl e
             | Inr cur \<Rightarrow>
                 (case Renderer_next self1 of
                    Inl e \<Rightarrow> Inl e
                  | Inr nx \<Rightarrow>
                      (case selection_of nx of
                         Inl e \<Rightarrow> Inl e
                       | Inr final \<Rightarrow>
                           install pick_a advanceAfterFadeOut active
                             (LinearFade_init (Some cur) (Some final) fadeTime) self1)))))"

text \<open>A caller's loop: one \<^verbatim>\<open>render\<close> call per entry, each with its clock readings and frame.\<close>

fun render_calls :: "(real \<times> real \<times> frame) list \<Rightarrow> 'w Renderer \<Rightarrow> 'w \<Rightarrow> error + ('w Renderer \<times> 'w)" where
  "render_calls [] self w = Inr (self, w)"
| "render_calls ((t0, t1, frame) # calls) self w =
     (case Renderer_render t0 t1 self w frame of
        Inl e \<Rightarrow> Inl e
      | Inr (self', w', frame') \<Rightarrow> render_calls calls self' w')"



section \<open>Predicates used to state the properties\<close>

text \<open>\<^verbatim>\<open>clamp(x, lo, hi)\<close>, as the specification writes the weight of the end scene.\<close>

definition clamp :: "real \<Rightarrow> real \<Rightarrow> real \<Rightarrow> real" where
  "clamp x lo hi = max lo (min hi x)"



text \<open>
  The pending name \<open>n\<close> is still to be committed while a fade is installed, and is the
  active playlist once the fade is cleared.
\<close>

definition pending_ok :: "string \<Rightarrow> 'w Renderer \<Rightarrow> bool" where
  "pending_ok n self =
     (if fade self = None then activePlaylist self = Some n else nextPlaylist self = Some n)"


section \<open>Concrete inputs\<close>

definition e1 :: eeg_info where
  "e1 = \<lparr>ident = 1, on = True, attrs = [(''attention'', 7/10), (''meditation'', 1/5)]\<rparr>"

definition e2 :: eeg_info where
  "e2 = \<lparr>ident = 2, on = True, attrs = [(''attention'', 3/10), (''meditation'', 1/5)]\<rparr>"

definition old_layer :: HeadsetResponsiveEffectLayer where
  "old_layer = \<lparr>respond_to = ''attention'', smooth_response_over_n_secs = 5,
      measurements = [2/5, 3/5, 4/5, 9/10], timestamps = [10, 7, 2, 1],
      last_eeg = Some e1, last_response_level = Some (1/2), fading_to = None\<rparr>"

definition one_reading :: HeadsetResponsiveEffectLayer where
  "one_reading = \<lparr>respond_to = ''attention'', smooth_response_over_n_secs = 5,
      measurements = [7/10], timestamps = [9],
      last_eeg = Some e1, last_response_level = None, fading_to = None\<rparr>"

definition two_readings :: HeadsetResponsiveEffectLayer where
  "two_readings = \<lparr>respond_to = ''attention'', smooth_response_over_n_secs = 5,
      measurements = [3/10, 7/10], timestamps = [10, 9],
      last_eeg = Some e2, last_response_level = Some (1/2), fading_to = None\<rparr>"

definition zero_level :: HeadsetResponsiveEffectLayer where
  "zero_level = \<lparr>respond_to = ''attention'', smooth_response_over_n_secs = 5,
      measurements = [0, 0], timestamps = [20, 19],
      last_eeg = Some e1, last_response_level = Some 0, fading_to = None\<rparr>"

definition zero_target :: HeadsetResponsiveEffectLayer where
  "zero_target = \<lparr>respond_to = ''attention'', smooth_response_over_n_secs = 5,
      measurements = [0, 0], timestamps = [20, 19],
      last_eeg = Some e1, last_response_level = Some (1/2), fading_to = Some 0\<rparr>"

definition white_playlist :: "unit Playlist" where
  "white_playlist = \<lparr>scenes = [[WhiteOutLayer]], cursor = 0, shuffle = False\<rparr>"

definition white_renderer :: "unit Renderer" where
  "white_renderer = \<lparr>playlists = [(''transition'', white_playlist)],
      activePlaylist = Some ''transition'', nextPlaylist = None, useFastFades = False,
      fade = None, gammaLayer = (\<lambda>x. x)\<rparr>"


text \<open>
  A layer class that defines \<^verbatim>\<open>safely_render\<close> as a plain call of its \<^verbatim>\<open>render\<close>: it
  appends its name to the trace and adds \<open>c\<close> to every component.
\<close>

definition tracer :: "string \<Rightarrow> real \<Rightarrow> string list layer" where
  "tracer name c =
     Layer (\<lambda>w frame. Inr (w @ [name], map (map (\<lambda>x. x + c)) frame))
           (Some (\<lambda>w frame. Inr (w @ [name], map (map (\<lambda>x. x + c)) frame)))
           (Some 1)"

definition playlist_A :: "string list Playlist" where
  "playlist_A = \<lparr>scenes = [[tracer ''a1'' 1], [tracer ''a2'' 2]], cursor = 0, shuffle = False\<rparr>"

definition playlist_B :: "string list Playlist" where
  "playlist_B = \<lparr>scenes = [[tracer ''b'' 4]], cursor = 0, shuffle = False\<rparr>"

definition renderer_AB :: "string list Renderer" where
  "renderer_AB = \<lparr>playlists = [(''A'', playlist_A), (''B'', playlist_B)],
      activePlaylist = Some ''A'', nextPlaylist = None, useFastFades = False,
      fade = None, gammaLayer = (\<lambda>x. x)\<rparr>"

definition frame0 :: frame where
  "frame0 = [[0, 0, 0]]"

definition cross_fade :: "string list fade" where
  "cross_fade = LinearFade False (Some [tracer ''a1'' 1]) (Some [tracer ''b'' 4]) 2 (Some 100)"

definition renderer_fading :: "string list Renderer" where
  "renderer_fading = renderer_AB\<lparr>nextPlaylist := Some ''B'', fade := Some cross_fade\<rparr>"

definition after_swap :: "string list Renderer" where
  "after_swap = renderer_AB\<lparr>playlists := [(''A'', playlist_A\<lparr>cursor := 1\<rparr>), (''B'', playlist_B)],
      nextPlaylist := Some ''B'',
      fade := Some (LinearFade_init (Some [tracer ''a1'' 1]) (Some [tracer ''b'' 4]) 2)\<rparr>"

definition in_flight :: "string list Renderer" where
  "in_flight = after_swap\<lparr>fade := Some cross_fade\<rparr>"

definition after_advance :: "string list Renderer" where
  "after_advance = after_swap\<lparr>playlists := [(''A'', playlist_A), (''B'', playlist_B)],
      fade := Some (LinearFade_init (Some [tracer ''a2'' 2]) (Some [tracer ''a1'' 1]) 1)\<rparr>"

definition after_renders :: "string list Renderer" where
  "after_renders = after_advance\<lparr>activePlaylist := Some ''B'', nextPlaylist := None, fade := None\<rparr>"

definition fast_fade :: "string list fade" where
  "fast_fade = FastFade (Some [tracer ''a1'' 1]) (Some [tracer ''b'' 4]) 2"

text \<open>
  A \<^verbatim>\<open>LinearFade\<close> that has been rendered to completion, and a \<^verbatim>\<open>TwoStepFade\<close> built
  with it as its second sub-fade.
\<close>

definition done_linear :: "unit fade" where
  "done_linear = LinearFade True None None 1 (Some 10)"

definition stale_two_step :: "unit fade" where
  "stale_two_step = TwoStepFade_init (LinearFade_init None None 1) done_linear None None"

definition fast_fade_done :: "string list fade" where
  "fast_fade_done =
     TwoStepFade True (Some [tracer ''a1'' 1]) (Some [tracer ''b'' 4])
       (LinearFade True (Some [tracer ''a1'' 1]) None 1 (Some 100))
       (LinearFade True None (Some [tracer ''b'' 4]) 1 (Some (203/2)))"

lemmas example_defs =
  frame0_def cross_fade_def renderer_fading_def renderer_AB_def playlist_A_def playlist_B_def
  tracer_def after_swap_def in_flight_def after_advance_def after_renders_def fast_fade_def fast_fade_done_def done_linear_def stale_two_step_def

lemmas eval_defs =
  truthy_def render_scene_def layers_truthy_def call_safely_render_def frame_scale_def
  frame_add_def zeros_like_def LinearFade_init_def TwoStepFade_init_def FastFade_def
  name_truthy_def index_def selection_def advance_def advance_named_def
  Renderer_get_def Renderer_active_def Renderer_next_def apply_gamma_def selection_of_def



section \<open>The responsive layer: history trimming\<close>

declare trim_loop.simps [simp del]

lemma trim_loop_cut:
  "length (measurements self) = N \<Longrightarrow> length (timestamps self) = N \<Longrightarrow>
   trim_loop idx N self =
     Inr (self\<lparr>measurements :=
                 take (Suc (idx + length (takeWhile (within_window (smooth_response_over_n_secs self) (hd (timestamps self)))
                                           (drop idx (timestamps self)))))
                      (measurements self),
               timestamps :=
                 take (Suc (idx + length (takeWhile (within_window (smooth_response_over_n_secs self) (hd (timestamps self)))
                                           (drop idx (timestamps self)))))
                      (timestamps self)\<rparr>)"
proof (induction idx N self rule: trim_loop.induct)
  case (1 idx N self)
  show ?case
  proof (cases "idx < N")
    case False
    with 1(2,3) show ?thesis
      by (subst trim_loop.simps) simp
  next
    case True
    have nth0: "index (timestamps self) 0 = Inr (hd (timestamps self))"
      using True 1(3) by (cases "timestamps self") (auto simp: index_def)
    have nthi: "index (timestamps self) idx = Inr (timestamps self ! idx)"
      using True 1(3) by (simp add: index_def)
    have dr: "drop idx (timestamps self) = timestamps self ! idx # drop (Suc idx) (timestamps self)"
      using True 1(3) by (simp add: Cons_nth_drop_Suc)
    show ?thesis
    proof (cases "hd (timestamps self) - timestamps self ! idx > smooth_response_over_n_secs self")
      case True
      then show ?thesis
        using \<open>idx < N\<close> nth0 nthi dr
        by (subst trim_loop.simps) (simp add: within_window_def)
    next
      case False
      have ih: "trim_loop (idx + 1) N self = Inr (self\<lparr>measurements :=
                 take (Suc (idx + 1 + length (takeWhile (within_window (smooth_response_over_n_secs self) (hd (timestamps self)))
                                           (drop (idx + 1) (timestamps self)))))
                      (measurements self),
               timestamps :=
                 take (Suc (idx + 1 + length (takeWhile (within_window (smooth_response_over_n_secs self) (hd (timestamps self)))
                                           (drop (idx + 1) (timestamps self)))))
                      (timestamps self)\<rparr>)"
        using 1(1)[OF \<open>idx < N\<close> nth0 nthi False 1(2) 1(3)] .
      show ?thesis
        using \<open>idx < N\<close> nth0 nthi False
        by (subst trim_loop.simps) (simp add: ih[simplified] dr within_window_def)
    qed
  qed
qed

lemma length_takeWhile_lt:
  "\<exists>x \<in> set xs. \<not> P x \<Longrightarrow> length (takeWhile P xs) < length xs"
  by (induction xs) auto

lemma take_Suc_takeWhile:
  "take (Suc (length (takeWhile P xs))) xs = takeWhile P xs @ take 1 (dropWhile P xs)"
  by (induction xs) auto

lemma take1_filter_dropWhile:
  "take 1 (filter (\<lambda>x. \<not> P x) xs) = take 1 (dropWhile P xs)"
  by (induction xs) auto

lemma filter_takeWhile_sorted:
  "sorted_wrt (\<ge>) ts \<Longrightarrow>
   filter (within_window w t0) ts = takeWhile (within_window w (t0::real)) ts"
proof (induction ts)
  case Nil
  then show ?case by simp
next
  case (Cons a ts)
  show ?case
  proof (cases "within_window w t0 a")
    case True
    with Cons show ?thesis by simp
  next
    case False
    have "\<forall>t \<in> set ts. \<not> within_window w t0 t"
      using Cons.prems(1) False by (auto simp: within_window_def)
    then have "filter (within_window w t0) ts = []"
      by (simp add: filter_empty_conv)
    with False show ?thesis by simp
  qed
qed

lemma record_reading_eq:
  assumes "getattr e (respond_to s1) = Inr v"
    and "length (measurements s1) = length (timestamps s1)"
  shows "record_reading now e s1 =
     (let k = cut_point (smooth_response_over_n_secs s1) now (timestamps s1);
          s3 = s1\<lparr>measurements := take k (v # measurements s1),
                   timestamps := take k (now # timestamps s1),
                   last_eeg := Some e\<rparr>;
          s4 = (if length (measurements s3) > 1
                then start_fade (sum_list (measurements s3) * 1.0 / real (length (measurements s3))) s3
                else s3)
      in Inr (s4, last_response_level s4))"
proof -
  define k where "k = cut_point (smooth_response_over_n_secs s1) now (timestamps s1)"
  define s2 where "s2 = s1\<lparr>measurements := v # measurements s1, timestamps := now # timestamps s1,
                 last_eeg := Some e\<rparr>"
  define s3 where "s3 = s1\<lparr>measurements := take k (v # measurements s1),
                   timestamps := take k (now # timestamps s1),
                   last_eeg := Some e\<rparr>"
  have l2: "length (measurements s2) = length (timestamps s2)"
    using assms(2) by (simp add: s2_def)
  have "trim_loop 0 (length (measurements s2)) s2 =
      Inr (s2\<lparr>measurements := take k (measurements s2), timestamps := take k (timestamps s2)\<rparr>)"
    by (subst trim_loop_cut[OF refl l2[symmetric]]) (simp add: s2_def k_def cut_point_def)
  also have "s2\<lparr>measurements := take k (measurements s2), timestamps := take k (timestamps s2)\<rparr> = s3"
    by (simp add: s2_def s3_def)
  finally have t: "trim_loop 0 (length (measurements s2)) s2 = Inr s3" .
  have "record_reading now e s1 =
      (let s4 = (if length (measurements s3) > 1
                then start_fade (sum_list (measurements s3) * 1.0 / real (length (measurements s3))) s3
                else s3)
      in Inr (s4, last_response_level s4))"
    apply (simp only: record_reading_def assms(1) Let_def sum.case)
    apply (simp only: s2_def[symmetric] t sum.case)
    done
  then show ?thesis
    unfolding Let_def k_def[symmetric] s3_def[symmetric] .
qed

lemma zip_take_takeWhile_snd:
  "length ms = length ts \<Longrightarrow>
   zip (take (Suc (length (takeWhile P ts))) ms) (take (Suc (length (takeWhile P ts))) ts) =
   takeWhile (\<lambda>(m, t). P t) (zip ms ts) @ take 1 (dropWhile (\<lambda>(m, t). P t) (zip ms ts))"
proof (induction ms ts rule: list_induct2)
  case Nil
  then show ?case by simp
next
  case (Cons m ms t ts)
  then show ?case by simp
qed

lemma filter_takeWhile_zip:
  "length ms = length ts \<Longrightarrow> sorted_wrt (\<ge>) ts \<Longrightarrow>
   filter (\<lambda>(m, t). within_window w t0 t) (zip ms ts) =
   takeWhile (\<lambda>(m, t). within_window w (t0::real) t) (zip ms ts)"
proof (induction ms ts rule: list_induct2)
  case Nil
  then show ?case by simp
next
  case (Cons m ms t ts)
  show ?case
  proof (cases "within_window w t0 t")
    case True
    with Cons show ?thesis by simp
  next
    case False
    have "\<forall>p \<in> set (zip ms ts). \<not> within_window w t0 (snd p)"
      using Cons.prems False by (auto simp: within_window_def dest!: set_zip_rightD)
    then have "filter (\<lambda>(m, t). within_window w t0 t) (zip ms ts) = []"
      by (auto simp: filter_empty_conv)
    with False show ?thesis by simp
  qed
qed

lemma start_fade_lists [simp]:
  "measurements (start_fade x s) = measurements s"
  "timestamps (start_fade x s) = timestamps s"
  by (simp_all add: start_fade_def)

text \<open>
  Claim C8. When a new valid reading is processed on a history whose two lists have the
  same length and whose timestamps are ordered newest first, \<^verbatim>\<open>render\<close> returns, and
  the retained history is every entry whose age relative to the newest timestamp is
  within the smoothing window, followed by exactly the first entry (newest to oldest)
  whose age exceeds it; when no entry exceeds the window the full history is retained.
\<close>

theorem history_trim:
  assumes "eeg params = Some e" and "eeg_ne (eeg params) (last_eeg self)" and "on e"
    and "getattr e (respond_to self) = Inr v"
    and "length (measurements self) = length (timestamps self)"
    and "sorted_wrt (\<ge>) (now # timestamps self)"
  shows "\<exists>s' lvl. render_level now params self = Inr (s', lvl) \<and>
           length (measurements s') = length (timestamps s') \<and>
           zip (measurements s') (timestamps s') =
             filter (\<lambda>(m, t). within_window (smooth_response_over_n_secs self) now t)
                    (zip (v # measurements self) (now # timestamps self))
             @ take 1 (filter (\<lambda>(m, t). \<not> within_window (smooth_response_over_n_secs self) now t)
                    (zip (v # measurements self) (now # timestamps self))) \<and>
           (list_all (within_window (smooth_response_over_n_secs self) now) (now # timestamps self)
            \<longrightarrow> measurements s' = v # measurements self \<and> timestamps s' = now # timestamps self)"
proof -
  let ?s1 = "if truthy (fading_to self) then end_fade self else self"
  let ?w = "smooth_response_over_n_secs self"
  let ?k = "cut_point ?w now (timestamps self)"
  let ?P = "\<lambda>(m::real, t). within_window ?w now t"
  let ?hist = "zip (v # measurements self) (now # timestamps self)"
  have f1: "measurements ?s1 = measurements self" "timestamps ?s1 = timestamps self"
    "respond_to ?s1 = respond_to self" "smooth_response_over_n_secs ?s1 = ?w"
    by (simp_all add: end_fade_def)
  have len: "length (v # measurements self) = length (now # timestamps self)"
    using assms(5) by simp
  from record_reading_eq[of e ?s1 v now] assms(4,5) f1
  obtain s' where r: "record_reading now e ?s1 = Inr (s', last_response_level s')"
    and ms: "measurements s' = take ?k (v # measurements self)"
    and ts: "timestamps s' = take ?k (now # timestamps self)"
    by (auto simp: Let_def)
  have run: "render_level now params self = Inr (s', last_response_level s')"
    using assms(1,2,3) r by (simp add: render_level_def new_reading_def)
  have z: "zip (measurements s') (timestamps s') =
      takeWhile ?P ?hist @ take 1 (dropWhile ?P ?hist)"
    unfolding ms ts cut_point_def using zip_take_takeWhile_snd[OF len] .
  have fl: "filter ?P ?hist = takeWhile ?P ?hist"
    using filter_takeWhile_zip[OF len assms(6)] .
  have dl: "take 1 (filter (\<lambda>(m, t). \<not> within_window ?w now t) ?hist) = take 1 (dropWhile ?P ?hist)"
    using take1_filter_dropWhile[of ?P ?hist] by (simp add: case_prod_unfold)
  have full: "list_all (within_window ?w now) (now # timestamps self) \<Longrightarrow>
      measurements s' = v # measurements self \<and> timestamps s' = now # timestamps self"
  proof -
    assume a: "list_all (within_window ?w now) (now # timestamps self)"
    then have "takeWhile (within_window ?w now) (now # timestamps self) = now # timestamps self"
      by (simp add: list_all_iff)
    then have "?k = Suc (length (now # timestamps self))"
      by (simp add: cut_point_def)
    then show ?thesis using ms ts assms(5) by simp
  qed
  show ?thesis
  proof (intro exI conjI)
    show "render_level now params self = Inr (s', last_response_level s')"
      by (rule run)
    show "length (measurements s') = length (timestamps s')"
      using ms ts assms(5) by simp
    show "zip (measurements s') (timestamps s') =
        filter ?P ?hist @ take 1 (filter (\<lambda>(m, t). \<not> within_window ?w now t) ?hist)"
      by (simp only: z fl dl)
    show "list_all (within_window ?w now) (now # timestamps self)
        \<longrightarrow> measurements s' = v # measurements self \<and> timestamps s' = now # timestamps self"
      using full by blast
  qed
qed

theorem history_trim_witness:
  "\<exists>s' lvl. render_level 11 \<lparr>time = 11, targetFrameRate = 59, eeg = Some e2\<rparr> old_layer = Inr (s', lvl) \<and>
      zip (measurements s') (timestamps s') = [(3/10, 11), (2/5, 10), (3/5, 7), (4/5, 2)]"
proof -
  let ?p = "\<lparr>time = 11, targetFrameRate = 59, eeg = Some e2\<rparr>"
  have h1: "eeg ?p = Some e2" by simp
  have h2: "eeg_ne (eeg ?p) (last_eeg old_layer)" by (simp add: eeg_ne_def old_layer_def e1_def e2_def)
  have h3: "on e2" by (simp add: e2_def)
  have h4: "getattr e2 (respond_to old_layer) = Inr (3/10)" by (simp add: getattr_def e2_def old_layer_def)
  have h5: "length (measurements old_layer) = length (timestamps old_layer)" by (simp add: old_layer_def)
  have h6: "sorted_wrt (\<ge>) (11 # timestamps old_layer)" by (simp add: old_layer_def)
  from history_trim[OF h1 h2 h3 h4 h5 h6]
  obtain s' lvl where r: "render_level 11 ?p old_layer = Inr (s', lvl)"
    and z: "zip (measurements s') (timestamps s') =
             filter (\<lambda>(m, t). within_window (smooth_response_over_n_secs old_layer) 11 t)
                    (zip (3/10 # measurements old_layer) (11 # timestamps old_layer))
             @ take 1 (filter (\<lambda>(m, t). \<not> within_window (smooth_response_over_n_secs old_layer) 11 t)
                    (zip (3/10 # measurements old_layer) (11 # timestamps old_layer)))"
    by blast
  have "zip (measurements s') (timestamps s') = [(3/10, 11), (2/5, 10), (3/5, 7), (4/5, 2)]"
    unfolding z by (simp add: old_layer_def within_window_def)
  with r show ?thesis by blast
qed

section \<open>The responsive layer: emitted level\<close>

text \<open>
  Claim C2. The claim says that a call with no new reading and no pending fade hands
  the previously resolved \<^verbatim>\<open>last_response_level\<close> to \<^verbatim>\<open>render_responsive\<close>. In the
  source \<^verbatim>\<open>response_level\<close> starts as \<^verbatim>\<open>None\<close> and neither branch assigns it on
  such a call: after two readings have resolved the level to \<open>1/2\<close>, the next call
  without a new reading emits \<^verbatim>\<open>None\<close>, whether \<^verbatim>\<open>params.eeg\<close> is the old reading or
  absent.
\<close>

theorem resolved_level_not_emitted:
  "render_level 9 \<lparr>time = 9, targetFrameRate = 59, eeg = Some e1\<rparr> (init_layer ''attention'' 5)
      = Inr (one_reading, None) \<and>
   render_level 10 \<lparr>time = 10, targetFrameRate = 59, eeg = Some e2\<rparr> one_reading
      = Inr (two_readings, Some (1/2)) \<and>
   last_response_level two_readings = Some (1/2) \<and> fading_to two_readings = None \<and>
   \<not> is_new_reading \<lparr>time = 21/2, targetFrameRate = 59, eeg = Some e2\<rparr> two_readings \<and>
   render_level (21/2) \<lparr>time = 21/2, targetFrameRate = 59, eeg = Some e2\<rparr> two_readings
      = Inr (two_readings, None) \<and>
   \<not> is_new_reading \<lparr>time = 21/2, targetFrameRate = 59, eeg = None\<rparr> two_readings \<and>
   render_level (21/2) \<lparr>time = 21/2, targetFrameRate = 59, eeg = None\<rparr> two_readings
      = Inr (two_readings, None)"
  by (simp add: render_level_def new_reading_def record_reading_def init_layer_def
      one_reading_def two_readings_def e1_def e2_def eeg_ne_def getattr_def truthy_def
      trim_loop.simps index_def start_fade_def is_new_reading_def)

lemma cut_point_ge1: "1 \<le> cut_point w now ts"
  by (simp add: cut_point_def)

lemma cut_point_ge2: "0 \<le> w \<Longrightarrow> 2 \<le> cut_point w now ts"
  by (simp add: cut_point_def within_window_def)

text \<open>
  Claim C3. The claim says that a first valid reading \<open>v\<close> on a layer with no history
  is emitted as the response level on that same call. In the source \<^verbatim>\<open>start_fade\<close> is
  only reached when more than one measurement is retained, so the reading \<open>7/10\<close> is
  stored and \<^verbatim>\<open>None\<close> is handed to \<^verbatim>\<open>render_responsive\<close>, although a value has been
  read.
\<close>

theorem first_reading_not_emitted:
  "render_level 9 \<lparr>time = 9, targetFrameRate = 59, eeg = Some e1\<rparr> (init_layer ''attention'' 5)
      = Inr (one_reading, None) \<and>
   getattr e1 ''attention'' = Inr (7/10) \<and>
   \<not> (\<exists>s. render_level 9 \<lparr>time = 9, targetFrameRate = 59, eeg = Some e1\<rparr> (init_layer ''attention'' 5)
      = Inr (s, Some (7/10)))"
  by (simp add: render_level_def new_reading_def record_reading_def init_layer_def
      one_reading_def e1_def eeg_ne_def getattr_def truthy_def
      trim_loop.simps index_def start_fade_def)

text \<open>
  What the source does with the first two readings of a layer with no history and a
  non-negative smoothing window: the first is stored and \<^verbatim>\<open>None\<close> is emitted; the
  second sets the level, with no fade, to the mean of the two, which is emitted.
\<close>

lemma first_level_from_second_reading:
  assumes "eeg p1 = Some r1" and "on r1" and "getattr r1 name = Inr v1"
    and "eeg p2 = Some r2" and "on r2" and "ident r2 \<noteq> ident r1" and "getattr r2 name = Inr v2"
    and "0 \<le> n"
    and "A = (init_layer name n)\<lparr>measurements := [v1], timestamps := [t1], last_eeg := Some r1\<rparr>"
  shows "render_level t1 p1 (init_layer name n) = Inr (A, None) \<and>
         render_level t2 p2 A =
           Inr (A\<lparr>measurements := [v2, v1], timestamps := [t2, t1], last_eeg := Some r2,
                  last_response_level := Some ((v2 + v1) / 2)\<rparr>,
                Some ((v2 + v1) / 2))"
proof
  have g1: "getattr r1 (respond_to (init_layer name n)) = Inr v1"
    using assms(3) by (simp add: init_layer_def)
  have l1: "length (measurements (init_layer name n)) = length (timestamps (init_layer name n))"
    by (simp add: init_layer_def)
  have c1: "take (cut_point n t1 []) [x] = [x]" for x :: real
    using cut_point_ge1[of n t1 "[]"] by (cases "cut_point n t1 []") simp_all
  have "record_reading t1 r1 (init_layer name n) = Inr (A, None)"
    unfolding record_reading_eq[OF g1 l1] assms(9)
    by (simp add: init_layer_def Let_def c1)
  then show "render_level t1 p1 (init_layer name n) = Inr (A, None)"
    using assms(1,2) by (simp add: render_level_def new_reading_def eeg_ne_def init_layer_def truthy_def)
  have g2: "getattr r2 (respond_to A) = Inr v2"
    using assms(7) by (simp add: assms(9) init_layer_def)
  have l2: "length (measurements A) = length (timestamps A)"
    by (simp add: assms(9))
  have c2: "take (cut_point n t2 [t1]) [x, y] = [x, y]" for x y :: real
  proof -
    obtain k where "cut_point n t2 [t1] = Suc (Suc k)"
      using cut_point_ge2[OF assms(8), of t2 "[t1]"]
      by (metis One_nat_def Suc_1 Suc_le_D Suc_le_mono)
    then show ?thesis by simp
  qed
  have "record_reading t2 r2 A =
      Inr (A\<lparr>measurements := [v2, v1], timestamps := [t2, t1], last_eeg := Some r2,
                  last_response_level := Some ((v2 + v1) / 2)\<rparr>,
                Some ((v2 + v1) / 2))"
    unfolding record_reading_eq[OF g2 l2]
    using cut_point_ge2[OF assms(8), of t2 "[t1]"]
    by (simp add: assms(9) init_layer_def Let_def c2 start_fade_def truthy_def)
  then show "render_level t2 p2 A =
           Inr (A\<lparr>measurements := [v2, v1], timestamps := [t2, t1], last_eeg := Some r2,
                  last_response_level := Some ((v2 + v1) / 2)\<rparr>,
                Some ((v2 + v1) / 2))"
    using assms(4,5,6)
    by (simp add: render_level_def new_reading_def eeg_ne_def assms(9) init_layer_def truthy_def)
qed

lemma first_level_from_second_reading_example:
  "render_level 9 \<lparr>time = 9, targetFrameRate = 59, eeg = Some e1\<rparr> (init_layer ''attention'' 5)
      = Inr (one_reading, None) \<and>
   render_level 10 \<lparr>time = 10, targetFrameRate = 59, eeg = Some e2\<rparr> one_reading
      = Inr (two_readings, Some (1/2))"
proof -
  let ?p1 = "\<lparr>time = 9, targetFrameRate = 59, eeg = Some e1\<rparr>"
  let ?p2 = "\<lparr>time = 10, targetFrameRate = 59, eeg = Some e2\<rparr>"
  have h: "eeg ?p1 = Some e1" "on e1" "getattr e1 ''attention'' = Inr (7/10)"
    "eeg ?p2 = Some e2" "on e2" "ident e2 \<noteq> ident e1" "getattr e2 ''attention'' = Inr (3/10)"
    "(0::real) \<le> 5"
    "one_reading = (init_layer ''attention'' 5)\<lparr>measurements := [7/10], timestamps := [9], last_eeg := Some e1\<rparr>"
    by (simp_all add: e1_def e2_def getattr_def one_reading_def init_layer_def)
  show ?thesis
    using first_level_from_second_reading[OF h, of 10]
    by (simp add: one_reading_def two_readings_def)
qed

lemma trim_loop_levels:
  "trim_loop idx N s = Inr s' \<Longrightarrow>
     last_response_level s' = last_response_level s \<and> fading_to s' = fading_to s"
proof (induction idx N s rule: trim_loop.induct)
  case (1 idx N self)
  from "1.prems" show ?case
    by (subst (asm) trim_loop.simps) (auto split: if_splits sum.splits dest: "1.IH")
qed

text \<open>
  Claim C9. The value \<open>0.0\<close> is treated as absent, because the guards test truthiness:
  \<^item> with a stored level of exactly \<open>0\<close>, \<^verbatim>\<open>start_fade\<close> overwrites the level with the
    new target and starts no fade;
  \<^item> with a pending target of exactly \<open>0\<close>, a new reading does not finalize the fade:
    \<^verbatim>\<open>render\<close> is \<open>record_reading\<close> on the unchanged layer, and a non-zero stored level
    \<open>c\<close> is still the stored and the emitted level afterwards;
  \<^item> with a pending target of exactly \<open>0\<close> and no new reading, nothing is interpolated
    or finalized: the layer is unchanged and \<^verbatim>\<open>None\<close> is emitted.
\<close>

theorem zero_level_treated_as_absent:
  "(last_response_level self = Some 0 \<longrightarrow>
      start_fade x self = self\<lparr>last_response_level := Some x\<rparr>) \<and>
   (fading_to self = Some 0 \<and> is_new_reading params self \<and> eeg params = Some e \<longrightarrow>
      render_level now params self = record_reading now e self \<and>
      (\<forall>s' lvl c. render_level now params self = Inr (s', lvl) \<and> last_response_level self = Some c \<and> c \<noteq> 0
          \<longrightarrow> last_response_level s' = Some c \<and> lvl = Some c)) \<and>
   (fading_to self = Some 0 \<and> \<not> is_new_reading params self \<longrightarrow>
      render_level now params self = Inr (self, None))"
proof (intro conjI impI)
  assume "last_response_level self = Some 0"
  then show "start_fade x self = self\<lparr>last_response_level := Some x\<rparr>"
    by (simp add: start_fade_def truthy_def)
next
  assume a: "fading_to self = Some 0 \<and> is_new_reading params self \<and> eeg params = Some e"
  then show eq: "render_level now params self = record_reading now e self"
    by (auto simp: render_level_def new_reading_def is_new_reading_def truthy_def)
  show "\<forall>s' lvl c. render_level now params self = Inr (s', lvl) \<and> last_response_level self = Some c \<and> c \<noteq> 0
          \<longrightarrow> last_response_level s' = Some c \<and> lvl = Some c"
  proof (intro allI impI)
    fix s' lvl c
    assume b: "render_level now params self = Inr (s', lvl) \<and> last_response_level self = Some c \<and> c \<noteq> 0"
    then have "record_reading now e self = Inr (s', lvl)" using eq by simp
    with b show "last_response_level s' = Some c \<and> lvl = Some c"
      by (auto simp: record_reading_def Let_def start_fade_def truthy_def
          split: sum.splits if_splits dest!: trim_loop_levels)
  qed
next
  assume "fading_to self = Some 0 \<and> \<not> is_new_reading params self"
  then show "render_level now params self = Inr (self, None)"
    by (auto simp: render_level_def is_new_reading_def truthy_def split: option.splits)
qed

theorem zero_level_treated_as_absent_witness:
  "start_fade (3/5) zero_level = zero_level\<lparr>last_response_level := Some (3/5)\<rparr> \<and>
   render_level 21 \<lparr>time = 21, targetFrameRate = 59, eeg = Some e2\<rparr> zero_target =
     Inr (zero_target\<lparr>measurements := [3/10, 0, 0], timestamps := [21, 20, 19],
                      last_eeg := Some e2, fading_to := Some (1/10)\<rparr>, Some (1/2)) \<and>
   render_level 25 \<lparr>time = 25, targetFrameRate = 59, eeg = Some e1\<rparr> zero_target =
     Inr (zero_target, None)"
proof -
  let ?p2 = "\<lparr>time = 21, targetFrameRate = 59, eeg = Some e2\<rparr>"
  let ?p1 = "\<lparr>time = 25, targetFrameRate = 59, eeg = Some e1\<rparr>"
  have z: "last_response_level zero_level = Some 0"
    by (simp add: zero_level_def)
  have f: "fading_to zero_target = Some 0"
    by (simp add: zero_target_def)
  have n2: "is_new_reading ?p2 zero_target"
    by (simp add: is_new_reading_def eeg_ne_def zero_target_def e1_def e2_def)
  have g2: "eeg ?p2 = Some e2"
    by simp
  have n1: "\<not> is_new_reading ?p1 zero_target"
    by (simp add: is_new_reading_def eeg_ne_def zero_target_def e1_def)
  have a: "start_fade (3/5) zero_level = zero_level\<lparr>last_response_level := Some (3/5)\<rparr>"
    using zero_level_treated_as_absent[where self = zero_level and x = "3/5"] z by blast
  have "render_level 21 ?p2 zero_target = record_reading 21 e2 zero_target"
    using zero_level_treated_as_absent[where self = zero_target and params = ?p2 and e = e2 and now = 21]
      f n2 g2 by blast
  also have "\<dots> = Inr (zero_target\<lparr>measurements := [3/10, 0, 0], timestamps := [21, 20, 19],
                      last_eeg := Some e2, fading_to := Some (1/10)\<rparr>, Some (1/2))"
    by (simp add: record_reading_def zero_target_def e2_def getattr_def trim_loop.simps
        index_def start_fade_def truthy_def)
  finally have b: "render_level 21 ?p2 zero_target =
     Inr (zero_target\<lparr>measurements := [3/10, 0, 0], timestamps := [21, 20, 19],
                      last_eeg := Some e2, fading_to := Some (1/10)\<rparr>, Some (1/2))" .
  have c: "render_level 25 ?p1 zero_target = Inr (zero_target, None)"
    using zero_level_treated_as_absent[where self = zero_target and params = ?p1 and now = 25]
      f n1 by blast
  from a b c show ?thesis by blast
qed

section \<open>Layer failures in the renderer\<close>

text \<open>
  Claim C1. The claim says that \<^verbatim>\<open>Renderer.render\<close> runs each layer through a wrapper
  that contains the layer's failure, so that no exception leaves \<^verbatim>\<open>render\<close>. The
  renderer does call \<^verbatim>\<open>layer.safely_render\<close>, but \<^verbatim>\<open>EffectLayer\<close> defines no such
  attribute: for the playlist \<^verbatim>\<open>[[WhiteOutLayer()]]\<close>, with no fade installed, the call
  raises \<^verbatim>\<open>AttributeError\<close>, which leaves \<^verbatim>\<open>render\<close>.
\<close>

theorem layer_failure_propagates:
  "Renderer_init [(''transition'', white_playlist)] None False (\<lambda>x. x) = Inr white_renderer \<and>
   fade white_renderer = None \<and>
   Renderer_active white_renderer = Inr (Some white_playlist) \<and>
   selection white_playlist = Inr [WhiteOutLayer] \<and>
   safely_render (WhiteOutLayer :: unit layer) = None \<and>
   Renderer_render 0 0 white_renderer () [[0, 0, 0]] = Inl AttributeError"
  by (simp add: Renderer_init_def white_renderer_def white_playlist_def name_truthy_def
      Renderer_render_def Renderer_active_def Renderer_get_def selection_def index_def
      call_safely_render_def WhiteOutLayer_def)


section \<open>LinearFade\<close>

text \<open>
  Claim C4, as stated, quantifies over every duration. With a duration of \<open>0\<close> the
  division raises on a call where the elapsed time \<open>0\<close> is at least the duration; with
  the duration \<open>-1\<close> and an elapsed time of \<open>3\<close> the fade is not done and the frame is
  scaled by \<open>-3\<close>.
\<close>

theorem linear_fade_done_counterexample:
  "fade_render 100 100 (LinearFade_init None None 0 :: unit fade) () [[1, 1, 1]] = Inl ZeroDivisionError \<and>
   fade_render 100 103 (LinearFade_init None None (- 1) :: unit fade) () [[1, 1, 1]]
     = Inr (LinearFade False None None (- 1) (Some 100), (), [[- 3, - 3, - 3]])"
  by (simp add: LinearFade_init_def truthy_def render_scene_def layers_truthy_def frame_scale_def)


text \<open>
  Claim C4, amended. For a \<^verbatim>\<open>LinearFade\<close> with a positive duration \<open>d\<close>, on a call
  where the time elapsed since the stored start instant \<open>s\<close> (captured on the first
  call) is at least \<open>d\<close> and the end scene's layers render without raising, the fade
  sets its done flag and the frame is exactly the accumulated rendering of the end
  scene's layers: no start layer is rendered and nothing is scaled.
\<close>

theorem linear_fade_done:
  assumes "0 < d"
    and "s = (if \<not> truthy st then t0 else the st)"
    and "d \<le> t1 - s"
    and "render_scene el w frame = Inr (w1, frame1)"
  shows "fade_render t0 t1 (LinearFade dn sl el d st) w frame =
           Inr (LinearFade True sl el d (Some s), w1, frame1)"
  using assms by (simp add: Let_def)

theorem linear_fade_done_witness:
  "fade_render (205/2) (205/2) cross_fade [] frame0 =
     Inr (LinearFade True (Some [tracer ''a1'' 1]) (Some [tracer ''b'' 4]) 2 (Some 100),
          [''b''], [[4, 4, 4]])"
proof -
  have h1: "(0::real) < 2" by simp
  have h2: "(100::real) = (if \<not> truthy (Some 100) then 205/2 else the (Some 100))"
    by (simp add: truthy_def)
  have h3: "(2::real) \<le> 205/2 - 100" by simp
  have h4: "render_scene (Some [tracer ''b'' 4]) [] frame0 = Inr ([''b''], [[4, 4, 4]])"
    by (simp add: example_defs eval_defs)
  show ?thesis
    unfolding cross_fade_def by (rule linear_fade_done[OF h1 h2 h3 h4])
qed


lemma scale_zeros_row:
  "map2 (+) (map (\<lambda>x. x * a) r) (map ((\<lambda>x. x * b) \<circ> (\<lambda>x. (0::real))) r) = map (\<lambda>x. x * a) r"
  by (induction r) simp_all

lemma frame_add_scaled_zeros:
  "frame_add (frame_scale a f) (frame_scale b (zeros_like f)) = frame_scale a f"
  unfolding frame_add_def frame_scale_def zeros_like_def
  by (induction f) (simp_all add: scale_zeros_row)

lemma zeros_like_scale: "zeros_like (frame_scale c f) = zeros_like f"
  by (simp add: zeros_like_def frame_scale_def comp_def)

lemma render_scene_falsy:
  "\<not> layers_truthy sl \<Longrightarrow> render_scene sl w f = Inr (w, f)"
  by (auto simp: layers_truthy_def render_scene_def split: option.splits)


text \<open>
  Claim C5. On a call during the active phase (elapsed time \<open>t1 - s\<close> since the start
  instant non-negative and below the duration) the frame is the end scene's rendering
  \<open>E\<close> scaled by the end weight plus the start scene's rendering \<open>S\<close> into a zeroed
  buffer scaled by the start weight, where the end weight is
  \<open>clamp (elapsed / duration) 0 1\<close> and the two weights add up to \<open>1\<close>.
\<close>

theorem linear_fade_blend:
  assumes "s = (if \<not> truthy st then t0 else the st)"
    and "0 \<le> t1 - s" and "t1 - s < d"
    and "render_scene el w frame = Inr (w1, E)"
    and "render_scene sl w1 (zeros_like E) = Inr (w2, S)"
  shows "\<exists>end_weight start_weight.
           fade_render t0 t1 (LinearFade dn sl el d st) w frame =
             Inr (LinearFade dn sl el d (Some s), w2,
                  frame_add (frame_scale end_weight E) (frame_scale start_weight S)) \<and>
           end_weight = clamp ((t1 - s) / d) 0 1 \<and>
           end_weight + start_weight = 1"
proof -
  let ?p = "(t1 - s) / d"
  have d: "0 < d" using assms(2,3) by linarith
  then have p: "0 \<le> ?p" "?p < 1" using assms(2,3) by simp_all
  then have c: "clamp ?p 0 1 = ?p" by (simp add: clamp_def)
  have "fade_render t0 t1 (LinearFade dn sl el d st) w frame =
      Inr (LinearFade dn sl el d (Some s), w2, frame_add (frame_scale ?p E) (frame_scale (1 - ?p) S))"
  proof (cases "layers_truthy sl")
    case True
    then show ?thesis
      using assms(1,4,5) d p by (simp add: Let_def zeros_like_scale)
  next
    case False
    from render_scene_falsy[OF False] assms(5) have "w2 = w1" "S = zeros_like E" by simp_all
    then show ?thesis
      using False assms(1,4) d p by (simp add: Let_def frame_add_scaled_zeros)
  qed
  with c show ?thesis by (intro exI[of _ ?p] exI[of _ "1 - ?p"]) simp
qed

theorem linear_fade_blend_witness:
  "fade_render (201/2) (201/2) cross_fade [] frame0 =
     Inr (cross_fade, [''b'', ''a1''], [[7/4, 7/4, 7/4]]) \<and>
   clamp ((201/2 - 100) / 2) 0 1 = 1/4"
proof -
  have h1: "(100::real) = (if \<not> truthy (Some 100) then 201/2 else the (Some 100))"
    by (simp add: truthy_def)
  have h2: "(0::real) \<le> 201/2 - 100" by simp
  have h3: "(201/2 - 100 :: real) < 2" by simp
  have h4: "render_scene (Some [tracer ''b'' 4]) [] frame0 = Inr ([''b''], [[4, 4, 4]])"
    by (simp add: example_defs eval_defs)
  have h5: "render_scene (Some [tracer ''a1'' 1]) [''b''] (zeros_like [[4, 4, 4]]) =
      Inr ([''b'', ''a1''], [[1, 1, 1]])"
    by (simp add: example_defs eval_defs)
  have c: "clamp ((201/2 - 100) / 2) 0 1 = 1/4"
    by (simp add: clamp_def)
  from linear_fade_blend[OF h1 h2 h3 h4 h5, of False]
  obtain ew sw where r: "fade_render (201/2) (201/2) cross_fade [] frame0 =
       Inr (cross_fade, [''b'', ''a1''], frame_add (frame_scale ew [[4, 4, 4]]) (frame_scale sw [[1, 1, 1]]))"
    and e: "ew = clamp ((201/2 - 100) / 2) 0 1" and s: "ew + sw = 1"
    unfolding cross_fade_def by blast
  from e c have ew: "ew = 1/4" by simp
  with s have sw: "sw = 3/4" by simp
  have "frame_add (frame_scale ew [[4, 4, 4]]) (frame_scale sw [[1, 1, 1]]) = [[7/4, 7/4, 7/4]]"
    unfolding ew sw by (simp add: frame_add_def frame_scale_def)
  with r c show ?thesis by simp
qed


section \<open>TwoStepFade\<close>






section \<open>The renderer and the pending playlist\<close>

text \<open>
  Claim C7. When the installed fade reports done after being rendered, the same
  \<^verbatim>\<open>render\<close> call clears the fade reference and, if a pending playlist name is set
  (the test is \<^verbatim>\<open>if self.nextPlaylist:\<close>), makes it the active playlist and clears the
  pending name; otherwise both names are unchanged.
\<close>

theorem fade_completion_commits:
  assumes "fade self = Some fd"
    and "fade_render t0 t1 fd w frame = Inr (fd', w', frame')"
    and "fade_done fd'"
  shows "\<exists>self'. Renderer_render t0 t1 self w frame = Inr (self', w', apply_gamma (gammaLayer self) frame') \<and>
           fade self' = None \<and>
           (if name_truthy (nextPlaylist self)
            then activePlaylist self' = nextPlaylist self \<and> nextPlaylist self' = None
            else activePlaylist self' = activePlaylist self \<and> nextPlaylist self' = nextPlaylist self)"
  using assms by (simp add: Renderer_render_def)

theorem fade_completion_commits_witness:
  "\<exists>self'. Renderer_render (205/2) (205/2) renderer_fading [] frame0 = Inr (self', [''b''], [[4, 4, 4]]) \<and>
      fade self' = None \<and> activePlaylist self' = Some ''B'' \<and> nextPlaylist self' = None"
proof -
  let ?fd' = "LinearFade True (Some [tracer ''a1'' 1]) (Some [tracer ''b'' 4]) 2 (Some 100)"
  have h1: "fade renderer_fading = Some cross_fade"
    by (simp add: renderer_fading_def)
  have h2: "fade_render (205/2) (205/2) cross_fade [] frame0 = Inr (?fd', [''b''], [[4, 4, 4]])"
    by (simp add: example_defs eval_defs)
  have h3: "fade_done ?fd'" by simp
  have n: "name_truthy (nextPlaylist renderer_fading)" "nextPlaylist renderer_fading = Some ''B''"
    by (simp_all add: renderer_fading_def name_truthy_def)
  have g: "apply_gamma (gammaLayer renderer_fading) [[4, 4, 4]] = [[4, 4, 4]]"
    by (simp add: renderer_fading_def renderer_AB_def apply_gamma_def)
  from fade_completion_commits[OF h1 h2 h3] n g show ?thesis
    by auto
qed


lemma render_pending_ok:
  assumes "n \<noteq> []" and "pending_ok n self"
    and "Renderer_render t0 t1 self w frame = Inr (self', w', frame')"
  shows "pending_ok n self'"
proof (cases "fade self")
  case None
  with assms show ?thesis
    by (auto simp: Renderer_render_def pending_ok_def split: if_splits sum.splits option.splits)
next
  case (Some fd)
  with assms show ?thesis
    by (auto simp: Renderer_render_def pending_ok_def name_truthy_def Let_def
        split: if_splits sum.splits)
qed

lemma render_calls_pending_ok:
  "n \<noteq> [] \<Longrightarrow> pending_ok n self \<Longrightarrow> render_calls calls self w = Inr (self', w') \<Longrightarrow>
   pending_ok n self'"
proof (induction calls arbitrary: self w)
  case Nil
  then show ?case by simp
next
  case (Cons c calls)
  obtain t0 t1 frame where c: "c = (t0, t1, frame)" by (cases c) auto
  from Cons.prems(3) obtain s1 w1 f1 where
    r: "Renderer_render t0 t1 self w frame = Inr (s1, w1, f1)" and
    k: "render_calls calls s1 w1 = Inr (self', w')"
    by (auto simp: c split: sum.splits)
  from render_pending_ok[OF Cons.prems(1,2) r] have "pending_ok n s1" .
  from Cons.IH[OF Cons.prems(1) this k] show ?case .
qed


lemma install_pending:
  "install pick_a adv active fd self = Inr self' \<Longrightarrow>
     nextPlaylist self' = nextPlaylist self \<and> fade self' = Some fd"
  by (auto simp: install_def Let_def split: if_splits option.splits)

lemma swapPlaylists_pending:
  assumes "swapPlaylists pick_m pick_a nxt mid adv fadeTime self = Inr self'"
  shows "nextPlaylist self' = nxt \<and> fade self' \<noteq> None"
proof -
  from assms obtain active fd base where
    i: "install pick_a adv active fd base = Inr self'" and b: "nextPlaylist base = nxt"
    by (auto simp: swapPlaylists_def Let_def split: sum.splits if_splits option.splits)
  from install_pending[OF i] b show ?thesis by simp
qed


text \<open>
  Claim C10. \<^verbatim>\<open>advanceCurrentPlaylist\<close> installs a fresh \<^verbatim>\<open>LinearFade\<close> and leaves the
  pending playlist name as it is. So when \<^verbatim>\<open>swapPlaylists\<close> has set the pending name
  \<open>n\<close>, its fade is still installed after some \<^verbatim>\<open>render\<close> calls, and
  \<^verbatim>\<open>advanceCurrentPlaylist\<close> is called then, \<open>n\<close> is still pending; and after any number
  of further \<^verbatim>\<open>render\<close> calls either the new fade is still installed and \<open>n\<close> is still
  pending, or the new fade has completed and \<open>n\<close> has been committed as the active
  playlist.
\<close>

theorem advance_keeps_pending_playlist:
  assumes "swapPlaylists pick_m pick_a (Some n) mid adv swapTime self0 = Inr self1"
    and "n \<noteq> []"
    and "render_calls calls0 self1 w0 = Inr (self2, w1)"
    and "fade self2 \<noteq> None"
    and "advanceCurrentPlaylist pick fadeTime self2 = Inr self3"
    and "render_calls calls self3 w1 = Inr (self4, w2)"
  shows "nextPlaylist self2 = Some n \<and> nextPlaylist self3 = Some n \<and>
         (\<exists>sel sel'. fade self3 = Some (LinearFade_init (Some sel) (Some sel') fadeTime)) \<and>
         (if fade self4 = None then activePlaylist self4 = Some n else nextPlaylist self4 = Some n)"
proof -
  from swapPlaylists_pending[OF assms(1)] have "pending_ok n self1"
    by (auto simp: pending_ok_def)
  from render_calls_pending_ok[OF assms(2) this assms(3)] assms(4)
  have n2: "nextPlaylist self2 = Some n"
    by (simp add: pending_ok_def)
  from assms(5) have n3: "nextPlaylist self3 = nextPlaylist self2"
    by (auto simp: advanceCurrentPlaylist_def split: sum.splits option.splits)
  from assms(5) have f3: "\<exists>sel sel'. fade self3 = Some (LinearFade_init (Some sel) (Some sel') fadeTime)"
    by (fastforce simp: advanceCurrentPlaylist_def split: sum.splits option.splits)
  from f3 n3 n2 have "pending_ok n self3"
    by (auto simp: pending_ok_def)
  from render_calls_pending_ok[OF assms(2) this assms(6)] have "pending_ok n self4" .
  with n2 n3 f3 show ?thesis
    by (simp add: pending_ok_def)
qed


theorem advance_keeps_pending_playlist_witness:
  "swapPlaylists 0 0 (Some ''B'') None True 2 renderer_AB = Inr after_swap \<and>
   render_calls [(100, 100, frame0)] after_swap [] = Inr (in_flight, [''b'', ''a1'']) \<and>
   fade in_flight = Some cross_fade \<and>
   advanceCurrentPlaylist 0 1 in_flight = Inr after_advance \<and>
   nextPlaylist after_advance = Some ''B'' \<and>
   render_calls [(201/2, 201/2, frame0), (101, 101, frame0), (102, 102, frame0)] after_advance
       [''b'', ''a1'']
     = Inr (after_renders, [''b'', ''a1'', ''a1'', ''a2'', ''a1'', ''a2'', ''a1'']) \<and>
   fade after_renders = None \<and> activePlaylist after_renders = Some ''B''"
proof -
  have h1: "swapPlaylists 0 0 (Some ''B'') None True 2 renderer_AB = Inr after_swap"
    by (simp add: swapPlaylists_def install_def example_defs eval_defs)
  have h2: "''B'' \<noteq> []" by simp
  have h3: "render_calls [(100, 100, frame0)] after_swap [] = Inr (in_flight, [''b'', ''a1''])"
    by (simp add: Renderer_render_def example_defs eval_defs)
  have f2: "fade in_flight = Some cross_fade"
    by (simp add: in_flight_def)
  then have h4: "fade in_flight \<noteq> None" by simp
  have h5: "advanceCurrentPlaylist 0 1 in_flight = Inr after_advance"
    by (simp add: advanceCurrentPlaylist_def example_defs eval_defs)
  have h6: "render_calls [(201/2, 201/2, frame0), (101, 101, frame0), (102, 102, frame0)] after_advance
       [''b'', ''a1'']
     = Inr (after_renders, [''b'', ''a1'', ''a1'', ''a2'', ''a1'', ''a2'', ''a1''])"
    by (simp add: Renderer_render_def example_defs eval_defs)
  have f: "fade after_renders = None"
    by (simp add: after_renders_def)
  from advance_keeps_pending_playlist[OF h1 h2 h3 h4 h5 h6] f
  have "nextPlaylist after_advance = Some ''B''" "activePlaylist after_renders = Some ''B''"
    by simp_all
  with h1 h3 f2 h5 h6 f show ?thesis by blast
qed

end
